theory Spec2Isabelle
  imports Main "HOL-Library.Multiset"
begin

section \<open>The service worker (sw.js)\<close>




subsection \<open>Requests, responses and the browser's CacheStorage\<close>

text \<open>
  A request is what the handlers read of it: the protocol and the host name of its URL,
  and the URL itself, which is the key of the cache. A response carries its status;
  \<open>response.ok\<close> is a status of 200 to 299.
\<close>

record request =
  protocol :: string
  hostname :: string
  href :: string

record sw_response =
  sw_status :: nat
  sw_payload :: string


text \<open>
  CacheStorage is a list of named caches in the order of their creation, each a list of
  request/response pairs; the names are distinct. \<open>caches.keys()\<close> lists the names,
  \<open>caches.delete\<close> removes a cache, \<open>caches.open\<close> creates the cache when it is
  missing, \<open>cache.put\<close> replaces the entry of the request and \<open>caches.match\<close>
  answers from the first cache that holds the request.
\<close>

type_synonym cache = "(request \<times> sw_response) list"







subsection \<open>Install and activate\<close>




subsection \<open>The fetch handlers\<close>







section \<open>The application (app.js)\<close>

subsection \<open>Configuration\<close>

definition CACHE_DURATION_MS :: int where
  "CACHE_DURATION_MS = 60 * 60 * 1000"

definition AUTO_REFRESH_MS :: int where
  "AUTO_REFRESH_MS = 60 * 60 * 1000"

definition RSS_PROXY :: string where
  "RSS_PROXY = ''https://api.rss2json.com/v1/api.json?rss_url=''"

definition MAX_ITEMS_PER_FEED :: nat where
  "MAX_ITEMS_PER_FEED = 10"

definition TRANSLATE_ENDPOINT :: string where
  "TRANSLATE_ENDPOINT = ''https://translate.googleapis.com/translate_a/single''"

text \<open>
  A string is a list of \<open>char\<close>s, one for each unit that \<open>length\<close> and \<open>slice\<close> count
  in the source. The two letters outside ASCII in the table of feeds are written as their
  UTF-8 bytes; the URL is only passed on.
\<close>

record feed_source =
  feed_url :: string
  feed_name :: string
  feed_lang :: string

definition feed :: "string \<Rightarrow> string \<Rightarrow> string \<Rightarrow> feed_source" where
  "feed u n l = \<lparr>feed_url = u, feed_name = n, feed_lang = l\<rparr>"

definition FEEDS_czech :: "feed_source list" where
  "FEEDS_czech =
     [feed ''https://russian.radio.cz/rss.xml'' ''Radio Prague RU'' ''ru'',
      feed ''https://420on.cz/news/rss'' ''420on.cz'' ''ru'',
      feed (''https://pra'' @ [CHR 0xC5, CHR 0xBE] @ ''sk'' @ [CHR 0xC3, CHR 0xBD] @
            ''-express.cz/feed'') ''Prague Express'' ''ru'',
      feed ''https://www.novinky.cz/rss'' ''Novinky.cz'' ''cs'',
      feed ''https://servis.idnes.cz/rss.aspx?c=zpravodaj'' ''iDNES.cz'' ''cs'',
      feed ''https://www.irozhlas.cz/rss/irozhlas/section/zpravy-domov'' ''iROZHLAS'' ''cs'']"

definition FEEDS_estonia :: "feed_source list" where
  "FEEDS_estonia =
     [feed ''https://rus.err.ee/rss'' ''ERR RUS'' ''ru'',
      feed ''https://rus.postimees.ee/rss'' ''Postimees RUS'' ''ru'',
      feed ''https://rus.delfi.ee/rss'' ''Delfi RUS'' ''ru'',
      feed ''https://www.err.ee/rss'' ''ERR.ee'' ''et'']"

definition FEEDS_vaping :: "feed_source list" where
  "FEEDS_vaping =
     [feed ''https://www.vapingpost.com/feed/'' ''Vaping Post'' ''en'',
      feed ''https://vaping360.com/feed/'' ''Vaping360'' ''en'',
      feed ''https://www.ecigintelligence.com/feed/'' ''ECig Intelligence'' ''en'',
      feed ''https://www.planetofthevapes.co.uk/news/rss'' ''Planet of the Vapes UK'' ''en'',
      feed ''https://filtermag.org/feed/'' ''Filter Magazine'' ''en'']"

text \<open>
  \<open>FEEDS[section]\<close>: the own properties of the table, and \<open>undefined\<close> (here \<open>None\<close>)
  for any other name. A name of \<open>Object.prototype\<close> reads a member of the prototype,
  which is not a list of feeds: \<open>Inl\<close>.
\<close>

definition Object_prototype_names :: "string list" where
  "Object_prototype_names =
     [''constructor'', ''toString'', ''toLocaleString'', ''valueOf'', ''hasOwnProperty'',
      ''isPrototypeOf'', ''propertyIsEnumerable'', ''__proto__'', ''__defineGetter__'',
      ''__defineSetter__'', ''__lookupGetter__'', ''__lookupSetter__'']"

definition FEEDS :: "string \<Rightarrow> unit + feed_source list option" where
  "FEEDS section =
     (if section = ''czech'' then Inr (Some FEEDS_czech)
      else if section = ''estonia'' then Inr (Some FEEDS_estonia)
      else if section = ''vaping'' then Inr (Some FEEDS_vaping)
      else if section \<in> set Object_prototype_names then Inl ()
      else Inr None)"

subsection \<open>JavaScript values\<close>

text \<open>
  The values that \<open>JSON.parse\<close> and \<open>resp.json()\<close> produce. Numbers are the
  integers: the timestamps the program writes are integers of milliseconds, and no
  claim reads another number. An object lists its own properties, with distinct keys.
  \<open>undefined\<close> is \<open>None\<close> of \<open>json option\<close>.
\<close>

datatype json = JNull | JBool bool | JNum int | JStr string | JArr "json list"
  | JObj "(string \<times> json) list"

datatype error = TypeError | SyntaxError | NetworkError | HttpError nat | SecurityError
  | QuotaExceededError

text \<open>
  The functions of the platform that the program calls and the repository does not define.
  \<open>number_to_string\<close> and \<open>string_to_number\<close> are the conversions of the language
  between numbers and strings (\<open>None\<close> is NaN); \<open>text_content\<close> and \<open>inner_text\<close>
  give the two properties of a fresh \<open>div\<close> whose \<open>innerHTML\<close> was set to the string;
  \<open>date_parse\<close> is the time value of \<open>new Date(string)\<close> (\<open>None\<close> for an invalid
  date); \<open>json_parse\<close> gives \<open>None\<close> where \<open>JSON.parse\<close> raises SyntaxError.
\<close>

record platform =
  number_to_string :: "int \<Rightarrow> string"
  string_to_number :: "string \<Rightarrow> int option"
  text_content :: "string \<Rightarrow> string"
  inner_text :: "string \<Rightarrow> string"
  date_parse :: "string \<Rightarrow> int option"
  json_parse :: "string \<Rightarrow> json option"
  json_stringify :: "json \<Rightarrow> string"
  encodeURIComponent :: "string \<Rightarrow> string"
  URLSearchParams :: "(string \<times> string) list \<Rightarrow> string"

definition and_then :: "error + 'a \<Rightarrow> ('a \<Rightarrow> error + 'b) \<Rightarrow> error + 'b" where
  "and_then r f = (case r of Inl e \<Rightarrow> Inl e | Inr x \<Rightarrow> f x)"

fun truthy :: "json \<Rightarrow> bool" where
  "truthy JNull = False"
| "truthy (JBool b) = b"
| "truthy (JNum n) = (n \<noteq> 0)"
| "truthy (JStr s) = (s \<noteq> [])"
| "truthy (JArr xs) = True"
| "truthy (JObj kvs) = True"

text \<open>\<open>v || d\<close> for a property \<open>v\<close> that may be undefined.\<close>

definition or_else :: "json option \<Rightarrow> json \<Rightarrow> json" where
  "or_else v d = (case v of None \<Rightarrow> d | Some x \<Rightarrow> if truthy x then x else d)"

text \<open>\<open>!v\<close> for a property \<open>v\<close> that may be undefined.\<close>

definition falsy :: "json option \<Rightarrow> bool" where
  "falsy v = (case v of None \<Rightarrow> True | Some x \<Rightarrow> \<not> truthy x)"

text \<open>
  \<open>v.k\<close> for the names \<open>status\<close>, \<open>items\<close>, \<open>title\<close>, \<open>description\<close>,
  \<open>pubDate\<close> and \<open>timestamp\<close>, which no prototype defines: reading a property of
  \<open>null\<close> raises TypeError, an object gives its own property, any other value gives
  \<open>undefined\<close>.
\<close>

fun get_prop :: "json \<Rightarrow> string \<Rightarrow> error + json option" where
  "get_prop JNull k = Inl TypeError"
| "get_prop (JObj kvs) k = Inr (map_of kvs k)"
| "get_prop v k = Inr None"

text \<open>\<open>v[0]\<close>: the first element of an array, the first unit of a string.\<close>

fun index0 :: "json \<Rightarrow> error + json option" where
  "index0 JNull = Inl TypeError"
| "index0 (JArr xs) = Inr (case xs of [] \<Rightarrow> None | x # _ \<Rightarrow> Some x)"
| "index0 (JStr s) = Inr (case s of [] \<Rightarrow> None | c # _ \<Rightarrow> Some (JStr [c]))"
| "index0 (JObj kvs) = Inr (map_of kvs ''0'')"
| "index0 v = Inr None"

text \<open>
  ToString. An array joins its elements with a comma, \<open>null\<close> elements as the empty
  string. An object is converted by \<open>Object.prototype.toString\<close>, unless it has an own
  property \<open>toString\<close>, which is not callable in a value read from JSON: then the
  conversion raises TypeError.
\<close>

fun ToString :: "platform \<Rightarrow> json \<Rightarrow> error + string"
  and join :: "platform \<Rightarrow> string \<Rightarrow> json list \<Rightarrow> error + string" where
  "ToString P JNull = Inr ''null''"
| "ToString P (JBool b) = Inr (if b then ''true'' else ''false'')"
| "ToString P (JNum n) = Inr (number_to_string P n)"
| "ToString P (JStr s) = Inr s"
| "ToString P (JArr xs) = join P '','' xs"
| "ToString P (JObj kvs) =
     (if ''toString'' \<in> set (map fst kvs) then Inl TypeError else Inr ''[object Object]'')"
| "join P sep [] = Inr []"
| "join P sep (x # xs) =
     (case (if x = JNull then Inr [] else ToString P x) of
        Inl e \<Rightarrow> Inl e
      | Inr s \<Rightarrow>
          if xs = [] then Inr s
          else (case join P sep xs of Inl e \<Rightarrow> Inl e | Inr r \<Rightarrow> Inr (s @ sep @ r)))"

text \<open>
  ToNumber of a property that may be undefined, \<open>None\<close> for NaN: \<open>undefined\<close> is NaN,
  \<open>null\<close> is 0, \<open>true\<close> is 1, a string is read as a numeric literal, an array or an
  object is converted to a string first.
\<close>

definition ToNumber :: "platform \<Rightarrow> json option \<Rightarrow> error + int option" where
  "ToNumber P v =
     (case v of
        None \<Rightarrow> Inr None
      | Some JNull \<Rightarrow> Inr (Some 0)
      | Some (JBool b) \<Rightarrow> Inr (Some (if b then 1 else 0))
      | Some (JNum n) \<Rightarrow> Inr (Some n)
      | Some (JStr s) \<Rightarrow> Inr (string_to_number P s)
      | Some x \<Rightarrow> and_then (ToString P x) (\<lambda>s. Inr (string_to_number P s)))"

text \<open>
  The time value of \<open>new Date(v)\<close>, \<open>None\<close> for an invalid date. A number is the time
  value itself when it is in the range of dates; a string is parsed; an array or an object
  is converted to a string first and parsed.
\<close>

definition new_Date :: "platform \<Rightarrow> json \<Rightarrow> error + int option" where
  "new_Date P v =
     (case v of
        JNull \<Rightarrow> Inr (Some 0)
      | JBool b \<Rightarrow> Inr (Some (if b then 1 else 0))
      | JNum n \<Rightarrow> Inr (if \<bar>n\<bar> \<le> 8640000000000000 then Some n else None)
      | JStr s \<Rightarrow> Inr (date_parse P s)
      | x \<Rightarrow> and_then (ToString P x) (\<lambda>s. Inr (date_parse P s)))"

subsection \<open>The network\<close>

text \<open>
  \<open>fetch(url)\<close> rejects (\<open>None\<close>) or resolves with a response. The payload is the value
  \<open>resp.json()\<close> resolves with, \<open>None\<close> when the body is not JSON and it rejects.
\<close>

record http_response =
  status :: nat
  payload :: "json option"

definition ok :: "http_response \<Rightarrow> bool" where
  "ok resp = (200 \<le> status resp \<and> status resp \<le> 299)"

type_synonym network = "string \<Rightarrow> http_response option"

subsection \<open>Translation\<close>

type_synonym translationCache = "string \<rightharpoonup> string"

definition translate_url :: "platform \<Rightarrow> string \<Rightarrow> string \<Rightarrow> string" where
  "translate_url P text fromLang =
     TRANSLATE_ENDPOINT @ ''?'' @
     URLSearchParams P
       [(''client'', ''gtx''), (''sl'', fromLang), (''tl'', ''ru''), (''dt'', ''t''),
        (''q'', text)]"

definition cacheKey :: "string \<Rightarrow> string \<Rightarrow> string" where
  "cacheKey fromLang text = fromLang @ '':'' @ take 100 text"

text \<open>
  \<open>data[0].map(part => part[0]).join('')\<close>. Only an array has \<open>map\<close>; \<open>join\<close> writes
  an undefined element as the empty string, as it does \<open>null\<close>.
\<close>

fun first_elements :: "json list \<Rightarrow> error + json list" where
  "first_elements [] = Inr []"
| "first_elements (part # parts) =
     (case index0 part of
        Inl e \<Rightarrow> Inl e
      | Inr h \<Rightarrow>
          (case first_elements parts of
             Inl e \<Rightarrow> Inl e
           | Inr hs \<Rightarrow> Inr ((case h of None \<Rightarrow> JNull | Some v \<Rightarrow> v) # hs)))"

definition decode_translation :: "platform \<Rightarrow> json \<Rightarrow> error + string" where
  "decode_translation P data =
     and_then (index0 data) (\<lambda>first.
       case first of
         Some (JArr parts) \<Rightarrow> and_then (first_elements parts) (join P [])
       | _ \<Rightarrow> Inl TypeError)"

text \<open>
  The body of the \<open>try\<close> of \<open>translateText\<close>: it raises, returns early on a response
  that is not \<open>ok\<close>, or reaches the translated text.
\<close>

datatype attempt = Thrown error | NotOk | Translated string

definition translate_request :: "platform \<Rightarrow> network \<Rightarrow> string \<Rightarrow> string \<Rightarrow> attempt" where
  "translate_request P net text fromLang =
     (case net (translate_url P text fromLang) of
        None \<Rightarrow> Thrown NetworkError
      | Some resp \<Rightarrow>
          if \<not> ok resp then NotOk
          else (case payload resp of
                  None \<Rightarrow> Thrown SyntaxError
                | Some data \<Rightarrow>
                    (case decode_translation P data of
                       Inl e \<Rightarrow> Thrown e
                     | Inr translated \<Rightarrow> Translated translated)))"

text \<open>
  \<open>translateText\<close> on the memo \<open>cache\<close>: the text it returns, the memo afterwards and
  the URLs it requested.
\<close>

record translation =
  returned :: string
  cache_after :: translationCache
  requests :: "string list"

definition translateText ::
  "platform \<Rightarrow> network \<Rightarrow> translationCache \<Rightarrow> string \<Rightarrow> string \<Rightarrow> translation" where
  "translateText P net cache text fromLang =
     (if text = [] \<or> fromLang = ''ru'' then
        \<lparr>returned = text, cache_after = cache, requests = []\<rparr>
      else
        (case cache (cacheKey fromLang text) of
           Some hit \<Rightarrow> \<lparr>returned = hit, cache_after = cache, requests = []\<rparr>
         | None \<Rightarrow>
             (case translate_request P net text fromLang of
                Translated translated \<Rightarrow>
                  \<lparr>returned = translated,
                   cache_after = cache(cacheKey fromLang text \<mapsto> translated),
                   requests = [translate_url P text fromLang]\<rparr>
              | _ \<Rightarrow>
                  \<lparr>returned = text, cache_after = cache,
                   requests = [translate_url P text fromLang]\<rparr>)))"

subsection \<open>News items\<close>

text \<open>
  \<open>item.link\<close> of an entry that is a string is the method \<open>String.prototype.link\<close>,
  which is truthy; of any other entry it is the own property or undefined.
\<close>

datatype link_value = Link json | String_prototype_link

record news_item =
  title :: string
  description :: string
  link :: link_value
  pubDate :: json
  source :: string
  lang :: string
  originalTitle :: "string option"

fun get_link :: "json \<Rightarrow> error + link_value option" where
  "get_link JNull = Inl TypeError"
| "get_link (JObj kvs) = Inr (map_option Link (map_of kvs ''link''))"
| "get_link (JStr s) = Inr (Some String_prototype_link)"
| "get_link v = Inr None"

definition link_or_hash :: "link_value option \<Rightarrow> link_value" where
  "link_or_hash v =
     (case v of
        None \<Rightarrow> Link (JStr ''#'')
      | Some (Link x) \<Rightarrow> if truthy x then Link x else Link (JStr ''#'')
      | Some String_prototype_link \<Rightarrow> String_prototype_link)"

text \<open>
  \<open>stripHtml\<close>: the assignment to \<open>innerHTML\<close> converts its argument to a string;
  the result is \<open>tmp.textContent || tmp.innerText || ''\<close>.
\<close>

definition stripHtml :: "platform \<Rightarrow> json \<Rightarrow> error + string" where
  "stripHtml P html =
     and_then (ToString P html) (\<lambda>markup.
       Inr (if text_content P markup \<noteq> [] then text_content P markup
            else if inner_text P markup \<noteq> [] then inner_text P markup
            else []))"

text \<open>The object that \<open>fetchFeed\<close> builds of one entry of the payload.\<close>

definition raw_item :: "platform \<Rightarrow> feed_source \<Rightarrow> json \<Rightarrow> error + news_item" where
  "raw_item P feedConfig item =
     and_then (get_prop item ''title'') (\<lambda>t.
     and_then (stripHtml P (or_else t (JStr []))) (\<lambda>stripped_title.
     and_then (get_prop item ''description'') (\<lambda>d.
     and_then (stripHtml P (or_else d (JStr []))) (\<lambda>stripped_description.
     and_then (get_link item) (\<lambda>l.
     and_then (get_prop item ''pubDate'') (\<lambda>p.
       Inr \<lparr>title = stripped_title,
            description = take 300 stripped_description,
            link = link_or_hash l,
            pubDate = or_else p (JStr []),
            source = feed_name feedConfig,
            lang = feed_lang feedConfig,
            originalTitle = None\<rparr>))))))"

fun raw_items :: "platform \<Rightarrow> feed_source \<Rightarrow> json list \<Rightarrow> error + news_item list" where
  "raw_items P feedConfig [] = Inr []"
| "raw_items P feedConfig (item # rest) =
     (case raw_item P feedConfig item of
        Inl e \<Rightarrow> Inl e
      | Inr i \<Rightarrow>
          (case raw_items P feedConfig rest of Inl e \<Rightarrow> Inl e | Inr is \<Rightarrow> Inr (i # is)))"

text \<open>
  \<open>translateItem\<close>: the two translations are started together, so both look the memo
  up before either writes it; the memo afterwards holds what both wrote.
\<close>

definition translateItem ::
  "platform \<Rightarrow> network \<Rightarrow> translationCache \<Rightarrow> news_item \<Rightarrow> string \<Rightarrow>
   news_item \<times> translationCache" where
  "translateItem P net cache item fromLang =
     (if fromLang = ''ru'' then (item, cache)
      else
        let t = translateText P net cache (title item) fromLang;
            d = (if description item \<noteq> []
                 then translateText P net cache (description item) fromLang
                 else \<lparr>returned = [], cache_after = cache, requests = []\<rparr>)
        in (item\<lparr>title := returned t, description := returned d,
                 originalTitle := Some (title item)\<rparr>,
            cache ++ cache_after t ++ cache_after d))"

text \<open>
  \<open>Promise.all(rawItems.map(item => translateItem(item, feedConfig.lang)))\<close>: every
  item is started on the memo as it is before the first response; the memo afterwards
  holds what all of them wrote, the responses taken in the order of the items.
\<close>

definition translate_items ::
  "platform \<Rightarrow> network \<Rightarrow> translationCache \<Rightarrow> news_item list \<Rightarrow> string \<Rightarrow>
   news_item list \<times> translationCache" where
  "translate_items P net cache rawItems fromLang =
     (let outcomes = map (\<lambda>item. translateItem P net cache item fromLang) rawItems
      in (map fst outcomes, fold (\<lambda>r acc. acc ++ snd r) outcomes cache))"

subsection \<open>Fetching a feed and a section\<close>

definition proxy_url :: "platform \<Rightarrow> feed_source \<Rightarrow> string" where
  "proxy_url P feedConfig = RSS_PROXY @ encodeURIComponent P (feed_url feedConfig)"

text \<open>
  The body of the \<open>try\<close> of \<open>fetchFeed\<close>; \<open>Inl\<close> is what it throws. After
  \<open>slice\<close>, only an array has \<open>map\<close>: any other truthy \<open>data.items\<close> raises TypeError.
\<close>

definition fetchFeed_try ::
  "platform \<Rightarrow> network \<Rightarrow> translationCache \<Rightarrow> feed_source \<Rightarrow>
   error + news_item list \<times> translationCache" where
  "fetchFeed_try P net cache feedConfig =
     (case net (proxy_url P feedConfig) of
        None \<Rightarrow> Inl NetworkError
      | Some resp \<Rightarrow>
          if \<not> ok resp then Inl (HttpError (status resp))
          else (case payload resp of
                  None \<Rightarrow> Inl SyntaxError
                | Some data \<Rightarrow>
                    and_then (get_prop data ''status'') (\<lambda>st.
                      if st \<noteq> Some (JStr ''ok'') then Inr ([], cache)
                      else and_then (get_prop data ''items'') (\<lambda>its.
                        if falsy its then Inr ([], cache)
                        else (case its of
                                Some (JArr entries) \<Rightarrow>
                                  and_then
                                    (raw_items P feedConfig
                                       (take MAX_ITEMS_PER_FEED entries))
                                    (\<lambda>rawItems.
                                       if feed_lang feedConfig \<noteq> ''ru''
                                       then Inr (translate_items P net cache rawItems
                                                   (feed_lang feedConfig))
                                       else Inr (rawItems, cache))
                              | _ \<Rightarrow> Inl TypeError)))))"

text \<open>
  \<open>fetchFeed\<close>: the \<open>catch\<close> logs a warning and returns the empty list. The result is
  the settled promise: \<open>Inr\<close> when it is fulfilled, \<open>Inl\<close> when it is rejected.
\<close>

definition fetchFeed ::
  "platform \<Rightarrow> network \<Rightarrow> translationCache \<Rightarrow> feed_source \<Rightarrow>
   (error + news_item list) \<times> translationCache" where
  "fetchFeed P net cache feedConfig =
     (case fetchFeed_try P net cache feedConfig of
        Inl err \<Rightarrow> (Inr [], cache)
      | Inr (items, cache') \<Rightarrow> (Inr items, cache'))"

text \<open>
  \<open>Array.prototype.sort\<close> with a comparator: a stable sort, here by insertion. The
  comparator returns the sign-carrying difference, with NaN read as 0 as \<open>sort\<close> does.
  Where the comparator is a consistent ordering of the elements, every conforming
  \<open>sort\<close> gives this result; where it is not, the order is the implementation's.
\<close>

fun insert_by :: "('a \<Rightarrow> 'a \<Rightarrow> error + int) \<Rightarrow> 'a \<Rightarrow> 'a list \<Rightarrow> error + 'a list" where
  "insert_by cmp x [] = Inr [x]"
| "insert_by cmp x (y # ys) =
     (case cmp y x of
        Inl e \<Rightarrow> Inl e
      | Inr v \<Rightarrow>
          if v \<le> 0
          then (case insert_by cmp x ys of Inl e \<Rightarrow> Inl e | Inr r \<Rightarrow> Inr (y # r))
          else Inr (x # y # ys))"

fun sort_into :: "('a \<Rightarrow> 'a \<Rightarrow> error + int) \<Rightarrow> 'a list \<Rightarrow> 'a list \<Rightarrow> error + 'a list" where
  "sort_into cmp [] placed = Inr placed"
| "sort_into cmp (x # xs) placed =
     (case insert_by cmp x placed of Inl e \<Rightarrow> Inl e | Inr s \<Rightarrow> sort_into cmp xs s)"

definition sort_by :: "('a \<Rightarrow> 'a \<Rightarrow> error + int) \<Rightarrow> 'a list \<Rightarrow> error + 'a list" where
  "sort_by cmp xs = sort_into cmp xs []"

text \<open>\<open>(a, b) => new Date(b.pubDate) - new Date(a.pubDate)\<close>; a difference with NaN is NaN.\<close>

definition by_date :: "platform \<Rightarrow> news_item \<Rightarrow> news_item \<Rightarrow> error + int" where
  "by_date P a b =
     and_then (new_Date P (pubDate b)) (\<lambda>tb.
     and_then (new_Date P (pubDate a)) (\<lambda>ta.
       Inr (case (tb, ta) of (Some x, Some y) \<Rightarrow> x - y | _ \<Rightarrow> 0)))"

text \<open>
  The feeds of a section are fetched together; the memo is passed from each feed to the
  next in the order of the table.
\<close>

fun fetch_feeds ::
  "platform \<Rightarrow> network \<Rightarrow> translationCache \<Rightarrow> feed_source list \<Rightarrow>
   (error + news_item list) list \<times> translationCache" where
  "fetch_feeds P net cache [] = ([], cache)"
| "fetch_feeds P net cache (f # fs) =
     (let (r, cache1) = fetchFeed P net cache f;
          (rs, cache2) = fetch_feeds P net cache1 fs
      in (r # rs, cache2))"

definition fulfilled :: "error + 'a \<Rightarrow> bool" where
  "fulfilled r = (case r of Inl e \<Rightarrow> False | Inr v \<Rightarrow> True)"

definition settled_value :: "error + 'a list \<Rightarrow> 'a list" where
  "settled_value r = (case r of Inl e \<Rightarrow> [] | Inr v \<Rightarrow> v)"

definition merge_results :: "(error + news_item list) list \<Rightarrow> news_item list" where
  "merge_results results = concat (map settled_value (filter fulfilled results))"

definition fetchSection_feeds ::
  "platform \<Rightarrow> network \<Rightarrow> translationCache \<Rightarrow> feed_source list \<Rightarrow>
   (error + news_item list) \<times> translationCache" where
  "fetchSection_feeds P net cache feeds =
     (let (results, cache') = fetch_feeds P net cache feeds
      in (sort_by (by_date P) (merge_results results), cache'))"

definition fetchSection ::
  "platform \<Rightarrow> network \<Rightarrow> translationCache \<Rightarrow> string \<Rightarrow>
   (error + news_item list) \<times> translationCache" where
  "fetchSection P net cache section =
     (case FEEDS section of
        Inl u \<Rightarrow> (Inl TypeError, cache)
      | Inr found \<Rightarrow>
          fetchSection_feeds P net cache (case found of None \<Rightarrow> [] | Some feeds \<Rightarrow> feeds))"

subsection \<open>The cache in localStorage\<close>

text \<open>
  localStorage: its entries, whether the page may use it (when not, every access raises
  SecurityError) and whether it is full (when it is, \<open>setItem\<close> raises
  QuotaExceededError).
\<close>

record local_storage =
  entries :: "string \<rightharpoonup> string"
  accessible :: bool
  full :: bool

definition getItem :: "local_storage \<Rightarrow> string \<Rightarrow> error + string option" where
  "getItem ls key = (if accessible ls then Inr (entries ls key) else Inl SecurityError)"


definition storage_key :: "string \<Rightarrow> string" where
  "storage_key section = ''news_'' @ section"

text \<open>
  The body of the \<open>try\<close> of \<open>getCachedData\<close> at the time \<open>now\<close> of \<open>Date.now()\<close>;
  \<open>Inr None\<close> is the \<open>null\<close> it returns. \<open>age\<close> is NaN when the timestamp converts
  to NaN, and \<open>NaN > CACHE_DURATION_MS\<close> is false.
\<close>

definition getCachedData_try ::
  "platform \<Rightarrow> local_storage \<Rightarrow> int \<Rightarrow> string \<Rightarrow> error + json option" where
  "getCachedData_try P ls now section =
     and_then (getItem ls (storage_key section)) (\<lambda>raw.
       case raw of
         None \<Rightarrow> Inr None
       | Some text \<Rightarrow>
           if text = [] then Inr None
           else (case json_parse P text of
                   None \<Rightarrow> Inl SyntaxError
                 | Some data \<Rightarrow>
                     and_then (get_prop data ''timestamp'') (\<lambda>ts.
                     and_then (ToNumber P ts) (\<lambda>t.
                       case t of
                         None \<Rightarrow> Inr (Some data)
                       | Some n \<Rightarrow>
                           if now - n > CACHE_DURATION_MS then Inr None
                           else Inr (Some data)))))"

definition getCachedData :: "platform \<Rightarrow> local_storage \<Rightarrow> int \<Rightarrow> string \<Rightarrow> json option" where
  "getCachedData P ls now section =
     (case getCachedData_try P ls now section of Inl e \<Rightarrow> None | Inr r \<Rightarrow> r)"




subsection \<open>Loading and refreshing\<close>

text \<open>
  The page: the ids of the feed containers it has, and whether it has the refresh button
  and the element of the last update.
\<close>

record page =
  containers :: "string list"
  refresh_btn :: bool
  last_updated_el :: bool

text \<open>
  \<open>loadSection\<close> up to its first suspension: the requests it sends. It sends none
  without its container or when it renders from the cache; otherwise \<open>fetchSection\<close>
  sends one request to the proxy for each feed of the section.
\<close>

definition loadSection_requests ::
  "platform \<Rightarrow> page \<Rightarrow> local_storage \<Rightarrow> int \<Rightarrow> string \<Rightarrow> bool \<Rightarrow> string list" where
  "loadSection_requests P pg ls now section forceRefresh =
     (if section \<notin> set (containers pg) then []
      else if \<not> forceRefresh \<and> \<not> falsy (getCachedData P ls now section) then []
      else (case FEEDS section of
              Inr (Some feeds) \<Rightarrow> map (proxy_url P) feeds
            | _ \<Rightarrow> []))"

text \<open>
  \<open>refreshAll\<close> runs in two steps of the event loop: from the call to the \<open>await\<close>,
  where the three loads are started, and from the settling of the loads to the end.
  The state is the flag \<open>isRefreshing\<close>, the class of the button and the time shown
  as the last update.
\<close>

record app_state =
  isRefreshing :: bool
  spinning :: bool
  last_updated :: "int option"

record started =
  state_after :: app_state
  loads :: "(string \<times> bool) list"
  sent :: "string list"

definition refreshAll_call ::
  "platform \<Rightarrow> page \<Rightarrow> local_storage \<Rightarrow> int \<Rightarrow> app_state \<Rightarrow> started" where
  "refreshAll_call P pg ls now s =
     (if isRefreshing s then \<lparr>state_after = s, loads = [], sent = []\<rparr>
      else
        let calls = [(''czech'', True), (''estonia'', True), (''vaping'', True)]
        in \<lparr>state_after =
              s\<lparr>isRefreshing := True, spinning := (refresh_btn pg \<or> spinning s)\<rparr>,
            loads = calls,
            sent = concat (map (\<lambda>c. loadSection_requests P pg ls now (fst c) (snd c)) calls)\<rparr>)"

definition refreshAll_resume :: "page \<Rightarrow> int \<Rightarrow> app_state \<Rightarrow> app_state" where
  "refreshAll_resume pg now s =
     s\<lparr>last_updated := (if last_updated_el pg then Some now else last_updated s),
       isRefreshing := False,
       spinning := (\<not> refresh_btn pg \<and> spinning s)\<rparr>"

text \<open>
  The event loop, as far as \<open>refreshAll\<close> goes: a call (by the button, the timer or
  the change of visibility) at a time, or the settling of the loads of an invocation that
  is waiting for them. \<open>in_flight\<close> counts the invocations that have started their loads
  and not yet resumed, \<open>fetches\<close> collects the requests sent.
\<close>

datatype event = Called int | Settled int

record event_loop =
  app :: app_state
  in_flight :: nat
  fetches :: "string list"

fun step :: "platform \<Rightarrow> page \<Rightarrow> local_storage \<Rightarrow> event_loop \<Rightarrow> event \<Rightarrow> event_loop" where
  "step P pg ls L (Called now) =
     (let r = refreshAll_call P pg ls now (app L)
      in \<lparr>app = state_after r,
          in_flight = (if loads r = [] then in_flight L else Suc (in_flight L)),
          fetches = fetches L @ sent r\<rparr>)"
| "step P pg ls L (Settled now) =
     (if in_flight L = 0 then L
      else L\<lparr>app := refreshAll_resume pg now (app L), in_flight := in_flight L - 1\<rparr>)"

definition run :: "platform \<Rightarrow> page \<Rightarrow> local_storage \<Rightarrow> event_loop \<Rightarrow> event list \<Rightarrow> event_loop" where
  "run P pg ls L events = foldl (step P pg ls) L events"

definition start :: event_loop where
  "start =
     \<lparr>app = \<lparr>isRefreshing = False, spinning = False, last_updated = None\<rparr>,
      in_flight = 0, fetches = []\<rparr>"

section \<open>A platform and inputs for the examples\<close>

text \<open>
  The examples below run the program on one instance of the platform. Numbers are
  written and read in decimal, the text of a piece of markup is what is outside its tags,
  \<open>JSON.stringify\<close> writes the compact form and \<open>JSON.parse\<close> reads back the texts
  of \<open>example_values\<close> and nothing else. Two dates are known; the empty string, like
  every other string, is an invalid date. A \<open>char\<close> outside the unreserved ones is
  percent-encoded as one byte.
\<close>

definition digit :: "nat \<Rightarrow> char" where
  "digit d = char_of (48 + d)"

function decimal :: "nat \<Rightarrow> string" where
  "decimal n = (if n < 10 then [digit n] else decimal (n div 10) @ [digit (n mod 10)])"
  by pat_completeness auto
termination
  by (relation "measure (\<lambda>n. n)") auto

declare decimal.simps [simp del]

definition show_int :: "int \<Rightarrow> string" where
  "show_int n = (if n < 0 then CHR ''-'' # decimal (nat (- n)) else decimal (nat n))"

fun read_digits :: "string \<Rightarrow> nat \<Rightarrow> nat option" where
  "read_digits [] acc = Some acc"
| "read_digits (c # cs) acc =
     (if (48::nat) \<le> of_char c \<and> (of_char c :: nat) \<le> 57
      then read_digits cs (10 * acc + (of_char c - 48))
      else None)"

definition read_int :: "string \<Rightarrow> int option" where
  "read_int s =
     (case s of
        [] \<Rightarrow> Some 0
      | c # cs \<Rightarrow>
          if c = CHR ''-'' \<and> cs \<noteq> [] then map_option (\<lambda>n. - int n) (read_digits cs 0)
          else map_option int (read_digits s 0))"

fun outside_tags :: "bool \<Rightarrow> string \<Rightarrow> string" where
  "outside_tags inside [] = []"
| "outside_tags inside (c # cs) =
     (if c = CHR ''<'' then outside_tags True cs
      else if c = CHR ''>'' \<and> inside then outside_tags False cs
      else if inside then outside_tags True cs
      else c # outside_tags False cs)"

definition hex_digit :: "nat \<Rightarrow> char" where
  "hex_digit d = (if d < 10 then char_of (48 + d) else char_of (55 + d))"

definition percent :: "char \<Rightarrow> string" where
  "percent c = [CHR ''%'', hex_digit (of_char c div 16), hex_digit (of_char c mod 16)]"

definition alphanumeric :: "char \<Rightarrow> bool" where
  "alphanumeric c =
     (let n = (of_char c :: nat)
      in (48 \<le> n \<and> n \<le> 57) \<or> (65 \<le> n \<and> n \<le> 90) \<or> (97 \<le> n \<and> n \<le> 122))"

definition uri_component :: "string \<Rightarrow> string" where
  "uri_component s =
     concat (map (\<lambda>c. if alphanumeric c \<or> c \<in> set ''-_.!~*()'' \<or> c = CHR 0x27 then [c]
                       else percent c) s)"

definition form_urlencoded :: "string \<Rightarrow> string" where
  "form_urlencoded s =
     concat (map (\<lambda>c. if alphanumeric c \<or> c \<in> set ''*-._'' then [c]
                       else if c = CHR '' '' then ''+''
                       else percent c) s)"

definition quoted :: "string \<Rightarrow> string" where
  "quoted s =
     [CHR 0x22] @
     concat (map (\<lambda>c. if c = CHR 0x22 \<or> c = CHR 0x5C then [CHR 0x5C, c] else [c]) s) @
     [CHR 0x22]"

fun separated :: "string \<Rightarrow> string list \<Rightarrow> string" where
  "separated sep [] = []"
| "separated sep [x] = x"
| "separated sep (x # xs) = x @ sep @ separated sep xs"

fun stringify :: "json \<Rightarrow> string" where
  "stringify JNull = ''null''"
| "stringify (JBool b) = (if b then ''true'' else ''false'')"
| "stringify (JNum n) = show_int n"
| "stringify (JStr s) = quoted s"
| "stringify (JArr xs) = ''['' @ separated '','' (map stringify xs) @ '']''"
| "stringify (JObj kvs) =
     ''{'' @ separated '','' (map (\<lambda>kv. quoted (fst kv) @ '':'' @ stringify (snd kv)) kvs) @ ''}''"

definition example_values :: "json list" where
  "example_values =
     [JNull,
      JObj [(''items'', JArr [])],
      JObj [(''timestamp'', JNull), (''items'', JArr [])],
      JObj [(''timestamp'', JStr ''soon''), (''items'', JArr [])],
      JObj [(''timestamp'', JNum 1700000000000), (''items'', JArr [])]]"

definition example_dates :: "(string \<times> int) list" where
  "example_dates =
     [(''2023-01-01T00:00:00Z'', 1672531200000), (''2024-01-01T00:00:00Z'', 1704067200000)]"

definition example_platform :: platform where
  "example_platform =
     \<lparr>number_to_string = show_int,
      string_to_number = read_int,
      text_content = outside_tags False,
      inner_text = outside_tags False,
      date_parse = map_of example_dates,
      json_parse = (\<lambda>text. find (\<lambda>v. stringify v = text) example_values),
      json_stringify = stringify,
      encodeURIComponent = uri_component,
      URLSearchParams =
        (\<lambda>ps. separated ''&''
                 (map (\<lambda>p. form_urlencoded (fst p) @ ''='' @ form_urlencoded (snd p)) ps))\<rparr>"







text \<open>
  A feed in Czech with one entry, and a network on which the proxy serves it and the
  translation service answers the description with a text of 301 characters; the request
  for the title fails.
\<close>

definition novinky :: feed_source where
  "novinky = feed ''https://www.novinky.cz/rss'' ''Novinky.cz'' ''cs''"

definition long_text :: string where
  "long_text = replicate 301 (CHR ''x'')"

definition verbose_net :: network where
  "verbose_net u =
     (if u = proxy_url example_platform novinky then
        Some \<lparr>status = 200,
              payload = Some (JObj [(''status'', JStr ''ok''),
                (''items'', JArr [JObj [(''title'', JStr ''Ahoj''),
                                        (''description'', JStr ''Dobry den'')]])])\<rparr>
      else if u = translate_url example_platform ''Dobry den'' ''cs'' then
        Some \<lparr>status = 200,
              payload = Some (JArr [JArr [JArr [JStr long_text, JStr ''Dobry den'']]])\<rparr>
      else None)"

text \<open>A proxy that answers every request with status 404.\<close>

definition not_found_net :: network where
  "not_found_net u = Some \<lparr>status = 404, payload = None\<rparr>"

text \<open>
  \<open>lacks_link\<close>: the entry has no link, that is, \<open>item.link\<close> is undefined or falsy.
\<close>

definition lacks_link :: "json \<Rightarrow> bool" where
  "lacks_link entry =
     (case get_link entry of
        Inr None \<Rightarrow> True
      | Inr (Some (Link x)) \<Rightarrow> \<not> truthy x
      | _ \<Rightarrow> False)"

text \<open>
  The first feed of the section \<open>czech\<close>, and a network on which the proxy serves two
  entries of it, the first without a date and without a link, and every other request
  fails.
\<close>

definition radio_prague :: feed_source where
  "radio_prague = feed ''https://russian.radio.cz/rss.xml'' ''Radio Prague RU'' ''ru''"

definition undated_first_net :: network where
  "undated_first_net u =
     (if u = proxy_url example_platform radio_prague then
        Some \<lparr>status = 200,
              payload = Some (JObj [(''status'', JStr ''ok''),
                (''items'', JArr
                   [JObj [(''title'', JStr ''Undated'')],
                    JObj [(''title'', JStr ''<b>Dated</b>''),
                          (''link'', JStr ''https://russian.radio.cz/a''),
                          (''pubDate'', JStr ''2024-01-01T00:00:00Z'')]])])\<rparr>
      else None)"

definition undated_item :: news_item where
  "undated_item =
     \<lparr>title = ''Undated'', description = [], link = Link (JStr ''#''), pubDate = JStr [],
      source = ''Radio Prague RU'', lang = ''ru'', originalTitle = None\<rparr>"

definition dated_item :: news_item where
  "dated_item =
     \<lparr>title = ''Dated'', description = [], link = Link (JStr ''https://russian.radio.cz/a''),
      pubDate = JStr ''2024-01-01T00:00:00Z'',
      source = ''Radio Prague RU'', lang = ''ru'', originalTitle = None\<rparr>"

text \<open>
  Storages: one that holds the text of a value under the key of the section \<open>czech\<close>,
  an empty one, and one that is full.
\<close>

definition storage_with :: "json \<Rightarrow> local_storage" where
  "storage_with v =
     \<lparr>entries = [storage_key ''czech'' \<mapsto> stringify v], accessible = True, full = False\<rparr>"

definition empty_storage :: local_storage where
  "empty_storage = \<lparr>entries = Map.empty, accessible = True, full = False\<rparr>"


text \<open>The page with its three feeds, its button and its time of the last update.\<close>

definition example_page :: page where
  "example_page =
     \<lparr>containers = [''czech'', ''estonia'', ''vaping''], refresh_btn = True,
      last_updated_el = True\<rparr>"

definition idle :: app_state where
  "idle = \<lparr>isRefreshing = False, spinning = False, last_updated = None\<rparr>"

text \<open>
  The order of C1: the time of an item is the time value of its date, and the epoch (0)
  when the date is missing or cannot be parsed; a list is sorted when the times descend.
\<close>

definition time_or_epoch :: "platform \<Rightarrow> news_item \<Rightarrow> int" where
  "time_or_epoch P i = (case new_Date P (pubDate i) of Inr (Some t) \<Rightarrow> t | _ \<Rightarrow> 0)"

definition sorted_by_date :: "platform \<Rightarrow> news_item list \<Rightarrow> bool" where
  "sorted_by_date P items = sorted_wrt (\<lambda>a b. time_or_epoch P b \<le> time_or_epoch P a) items"

definition dated :: "platform \<Rightarrow> news_item \<Rightarrow> bool" where
  "dated P i = (case new_Date P (pubDate i) of Inr (Some t) \<Rightarrow> True | _ \<Rightarrow> False)"

section \<open>The service worker: activation and the fetch policy\<close>

lemmas encoding_defs =
  uri_component_def form_urlencoded_def percent_def hex_digit_def alphanumeric_def

















section \<open>Translation\<close>

text \<open>
  C5: for every text and source language, if the source language is \<open>ru\<close> or the text
  is empty, \<open>translateText\<close> returns the text as it is, sends no request and leaves the
  memo as it was.
\<close>

theorem translateText_identity:
  assumes "text = [] \<or> fromLang = ''ru''"
  shows "translateText P net cache text fromLang =
           \<lparr>returned = text, cache_after = cache, requests = []\<rparr>"
  using assms by (auto simp: translateText_def)

theorem translateText_identity_witness:
  "translateText example_platform (\<lambda>u. None) Map.empty ''Privet'' ''ru'' =
     \<lparr>returned = ''Privet'', cache_after = Map.empty, requests = []\<rparr> \<and>
   translateText example_platform (\<lambda>u. None) Map.empty [] ''cs'' =
     \<lparr>returned = [], cache_after = Map.empty, requests = []\<rparr>"
  using translateText_identity [of "''Privet''" "''ru''" example_platform "\<lambda>u. None" Map.empty]
    translateText_identity [of "[]" "''cs''" example_platform "\<lambda>u. None" Map.empty]
  by simp




section \<open>Fetching a feed\<close>

lemma fetchFeed_cases:
  "fetchFeed P net cache feedConfig = (Inr [], cache) \<or>
   (\<exists>items cache'. fetchFeed_try P net cache feedConfig = Inr (items, cache') \<and>
      fetchFeed P net cache feedConfig = (Inr items, cache'))"
  by (cases "fetchFeed_try P net cache feedConfig") (auto simp: fetchFeed_def)

text \<open>
  C4: for every feed source, the promise of \<open>fetchFeed\<close> is never rejected; when the
  fetch rejects, the status of the response is not OK, the body is not JSON, the
  \<open>status\<close> of the payload is not \<open>ok\<close>, its \<open>items\<close> are absent (or falsy), or
  anything in the body of the \<open>try\<close> raises, \<open>fetchFeed\<close> returns the empty list
  and leaves the memo of translations as it was.
\<close>

theorem fetchFeed_never_throws:
  "fulfilled (fst (fetchFeed P net cache feedConfig)) \<and>
   ((net (proxy_url P feedConfig) = None \<or>
     (\<exists>resp. net (proxy_url P feedConfig) = Some resp \<and>
        (\<not> ok resp \<or> payload resp = None \<or>
         (\<exists>data. payload resp = Some data \<and>
            (get_prop data ''status'' \<noteq> Inr (Some (JStr ''ok'')) \<or>
             (\<exists>its. get_prop data ''items'' = Inr its \<and> falsy its))))) \<or>
     (\<exists>e. fetchFeed_try P net cache feedConfig = Inl e))
    \<longrightarrow> fetchFeed P net cache feedConfig = (Inr [], cache))"
proof -
  have a: "fulfilled (fst (fetchFeed P net cache feedConfig))"
    using fetchFeed_cases [of P net cache feedConfig] by (auto simp: fulfilled_def)
  have b: "fetchFeed P net cache feedConfig = (Inr [], cache)"
    if "fetchFeed_try P net cache feedConfig = Inl e" for e
    using that by (simp add: fetchFeed_def)
  have c: "fetchFeed P net cache feedConfig = (Inr [], cache)"
    if "net (proxy_url P feedConfig) = None"
    using that by (simp add: fetchFeed_def fetchFeed_try_def)
  have d: "fetchFeed P net cache feedConfig = (Inr [], cache)"
    if "net (proxy_url P feedConfig) = Some resp" and "\<not> ok resp \<or> payload resp = None"
    for resp
    using that by (auto simp add: fetchFeed_def fetchFeed_try_def)
  have e: "fetchFeed P net cache feedConfig = (Inr [], cache)"
    if "net (proxy_url P feedConfig) = Some resp" and "payload resp = Some data"
      and "get_prop data ''status'' \<noteq> Inr (Some (JStr ''ok'')) \<or>
           (\<exists>its. get_prop data ''items'' = Inr its \<and> falsy its)" for resp data
    using that
    by (cases "ok resp"; cases "get_prop data ''status''")
       (auto simp add: fetchFeed_def fetchFeed_try_def and_then_def)
  from a b c d e show ?thesis by blast
qed

theorem fetchFeed_never_throws_witness:
  "\<not> ok \<lparr>status = 404, payload = None\<rparr> \<and>
   fetchFeed example_platform not_found_net Map.empty novinky = (Inr [], Map.empty) \<and>
   fetchFeed_try example_platform not_found_net Map.empty novinky = Inl (HttpError 404)"
  using fetchFeed_never_throws [of example_platform not_found_net Map.empty novinky]
  by (simp add: not_found_net_def ok_def fetchFeed_try_def)

lemma raw_items_length: "raw_items P cfg es = Inr raws \<Longrightarrow> length raws = length es"
  by (induction es arbitrary: raws) (auto split: sum.splits)

lemma raw_items_nth:
  "raw_items P cfg es = Inr raws \<Longrightarrow> k < length es \<Longrightarrow>
   raw_item P cfg (es ! k) = Inr (raws ! k)"
proof (induction es arbitrary: raws k)
  case Nil
  then show ?case by simp
next
  case (Cons e es)
  then show ?case by (cases k) (auto split: sum.splits)
qed

lemma raw_item_description:
  assumes "raw_item P cfg e = Inr i"
  shows "\<exists>d t. get_prop e ''description'' = Inr d \<and>
           stripHtml P (or_else d (JStr [])) = Inr t \<and> description i = take 300 t"
  using assms by (auto simp: raw_item_def and_then_def split: sum.splits)

lemma raw_item_link:
  assumes "raw_item P cfg e = Inr i"
  shows "\<exists>l. get_link e = Inr l \<and> link i = link_or_hash l"
  using assms by (auto simp: raw_item_def and_then_def split: sum.splits)

lemma lacks_link_hash:
  assumes "get_link e = Inr l" and "lacks_link e"
  shows "link_or_hash l = Link (JStr ''#'')"
  using assms
  by (auto simp: lacks_link_def link_or_hash_def split: option.splits link_value.splits)

lemma translateItem_fields:
  "link (fst (translateItem P net cache i fromLang)) = link i \<and>
   description (fst (translateItem P net cache i fromLang)) =
     (if fromLang = ''ru'' then description i
      else if description i = [] then []
      else returned (translateText P net cache (description i) fromLang))"
  by (simp add: translateItem_def Let_def)

lemma translate_items_nth:
  "length (fst (translate_items P net cache raws fromLang)) = length raws \<and>
   (k < length raws \<longrightarrow>
      fst (translate_items P net cache raws fromLang) ! k =
        fst (translateItem P net cache (raws ! k) fromLang))"
  by (simp add: translate_items_def Let_def)

text \<open>What a successful body of \<open>fetchFeed\<close> returns, in terms of the raw items.\<close>

lemma fetchFeed_try_items:
  assumes "fetchFeed_try P net cache cfg = Inr (items, cache')"
    and "items \<noteq> []"
  shows "\<exists>resp data entries raws.
           net (proxy_url P cfg) = Some resp \<and> payload resp = Some data \<and>
           get_prop data ''items'' = Inr (Some (JArr entries)) \<and>
           raw_items P cfg (take MAX_ITEMS_PER_FEED entries) = Inr raws \<and>
           items = (if feed_lang cfg \<noteq> ''ru''
                    then fst (translate_items P net cache raws (feed_lang cfg)) else raws)"
proof -
  from assms obtain resp where r: "net (proxy_url P cfg) = Some resp"
    by (cases "net (proxy_url P cfg)") (auto simp: fetchFeed_try_def)
  with assms obtain data where d: "payload resp = Some data" and okr: "ok resp"
    by (cases "payload resp") (auto simp: fetchFeed_try_def split: if_splits)
  from assms r d okr obtain st where st: "get_prop data ''status'' = Inr st"
    by (cases "get_prop data ''status''") (auto simp: fetchFeed_try_def and_then_def)
  with assms r d okr have st_ok: "st = Some (JStr ''ok'')"
    by (auto simp: fetchFeed_try_def and_then_def split: if_splits)
  from assms r d okr st st_ok obtain its where its: "get_prop data ''items'' = Inr its"
    by (cases "get_prop data ''items''") (auto simp: fetchFeed_try_def and_then_def)
  with assms r d okr st st_ok obtain entries where en: "its = Some (JArr entries)"
    by (auto simp: fetchFeed_try_def and_then_def split: if_splits option.splits json.splits)
  from assms r d okr st st_ok its en obtain raws where
    raws: "raw_items P cfg (take MAX_ITEMS_PER_FEED entries) = Inr raws"
    by (cases "raw_items P cfg (take MAX_ITEMS_PER_FEED entries)")
       (auto simp: fetchFeed_try_def and_then_def falsy_def)
  from assms r d okr st st_ok its en raws have
    "items = (if feed_lang cfg \<noteq> ''ru''
              then fst (translate_items P net cache raws (feed_lang cfg)) else raws)"
    by (auto simp: fetchFeed_try_def and_then_def falsy_def split: if_splits)
  with r d its en raws show ?thesis by blast
qed

text \<open>
  C6, as the claim states it, fails: the description is truncated before it is
  translated, and the translation is returned as the service gives it. Here a feed in
  Czech is fetched successfully and the description of its item has 301 characters.
\<close>

theorem fetchFeed_translated_description_longer:
  "map (\<lambda>i. length (description i))
     (settled_value (fst (fetchFeed example_platform verbose_net Map.empty novinky))) = [301]"
  by (simp add: encoding_defs fetchFeed_def fetchFeed_try_def verbose_net_def novinky_def feed_def
      proxy_url_def example_platform_def ok_def and_then_def falsy_def MAX_ITEMS_PER_FEED_def
      raw_item_def stripHtml_def or_else_def link_or_hash_def translate_items_def
      translateItem_def translateText_def translate_request_def translate_url_def
      decode_translation_def cacheKey_def long_text_def settled_value_def RSS_PROXY_def
      TRANSLATE_ENDPOINT_def)

text \<open>
  C6, amended: for every feed, \<open>fetchFeed\<close> returns at most \<open>MAX_ITEMS_PER_FEED\<close>
  (10) items, the \<open>k\<close>-th of them made of the \<open>k\<close>-th entry of the payload. The text
  of the entry's description is stripped of markup and truncated to 300 characters; for a
  feed in Russian this is the description of the item, of at most 300 characters; for a
  feed in another language the description of the item is what \<open>translateText\<close>
  returns for the truncated text (the empty string for an empty text), of any length.
  Every item whose entry lacks a link has the link \<open>#\<close>.
\<close>

theorem fetchFeed_items:
  assumes "fetchFeed P net cache cfg = (Inr items, cache')"
  shows "length items \<le> MAX_ITEMS_PER_FEED \<and>
         (feed_lang cfg = ''ru'' \<longrightarrow> (\<forall>i \<in> set items. length (description i) \<le> 300)) \<and>
         (\<forall>resp data entries k.
            net (proxy_url P cfg) = Some resp \<longrightarrow> payload resp = Some data \<longrightarrow>
            get_prop data ''items'' = Inr (Some (JArr entries)) \<longrightarrow> k < length items \<longrightarrow>
            (\<exists>raw d t.
               raw_item P cfg (entries ! k) = Inr raw \<and>
               get_prop (entries ! k) ''description'' = Inr d \<and>
               stripHtml P (or_else d (JStr [])) = Inr t \<and>
               description raw = take 300 t \<and>
               description (items ! k) =
                 (if feed_lang cfg = ''ru'' then description raw
                  else if description raw = [] then []
                  else returned (translateText P net cache (description raw)
                                   (feed_lang cfg))) \<and>
               (lacks_link (entries ! k) \<longrightarrow> link (items ! k) = Link (JStr ''#''))))"
proof (cases "items = []")
  case True
  then show ?thesis by simp
next
  case False
  from assms False have "fetchFeed_try P net cache cfg = Inr (items, cache')"
    using fetchFeed_cases [of P net cache cfg] by auto
  from fetchFeed_try_items [OF this False] obtain resp data entries raws where
    r: "net (proxy_url P cfg) = Some resp" and d: "payload resp = Some data" and
    its: "get_prop data ''items'' = Inr (Some (JArr entries))" and
    raws: "raw_items P cfg (take MAX_ITEMS_PER_FEED entries) = Inr raws" and
    items: "items = (if feed_lang cfg \<noteq> ''ru''
                    then fst (translate_items P net cache raws (feed_lang cfg)) else raws)"
    by blast
  have len_raws: "length raws = length (take MAX_ITEMS_PER_FEED entries)"
    using raws by (rule raw_items_length)
  have len: "length items = length raws"
    using items translate_items_nth [of P net cache raws "feed_lang cfg"] by auto
  have nth_raw: "raw_item P cfg (entries ! k) = Inr (raws ! k)" if "k < length items" for k
    using raw_items_nth [OF raws, of k] that len len_raws by simp
  have nth_item: "items ! k = (if feed_lang cfg \<noteq> ''ru''
        then fst (translateItem P net cache (raws ! k) (feed_lang cfg)) else raws ! k)"
    if "k < length items" for k
    using items that len translate_items_nth [of P net cache raws "feed_lang cfg" k] by auto
  have one: "length items \<le> MAX_ITEMS_PER_FEED"
    using len len_raws by simp
  have each: "\<exists>raw d t.
               raw_item P cfg (entries ! k) = Inr raw \<and>
               get_prop (entries ! k) ''description'' = Inr d \<and>
               stripHtml P (or_else d (JStr [])) = Inr t \<and>
               description raw = take 300 t \<and>
               description (items ! k) =
                 (if feed_lang cfg = ''ru'' then description raw
                  else if description raw = [] then []
                  else returned (translateText P net cache (description raw)
                                   (feed_lang cfg))) \<and>
               (lacks_link (entries ! k) \<longrightarrow> link (items ! k) = Link (JStr ''#''))"
    if k: "k < length items" for k
  proof -
    from raw_item_description [OF nth_raw [OF k]] obtain d t where
      dt: "get_prop (entries ! k) ''description'' = Inr d"
          "stripHtml P (or_else d (JStr [])) = Inr t" "description (raws ! k) = take 300 t"
      by blast
    from raw_item_link [OF nth_raw [OF k]] obtain l where
      l: "get_link (entries ! k) = Inr l" "link (raws ! k) = link_or_hash l"
      by blast
    have lk: "link (items ! k) = link_or_hash l"
      using nth_item [OF k] l translateItem_fields [of P net cache "raws ! k" "feed_lang cfg"]
      by (cases "feed_lang cfg = ''ru''") simp_all
    have ds: "description (items ! k) =
                 (if feed_lang cfg = ''ru'' then description (raws ! k)
                  else if description (raws ! k) = [] then []
                  else returned (translateText P net cache (description (raws ! k))
                                   (feed_lang cfg)))"
      using nth_item [OF k] translateItem_fields [of P net cache "raws ! k" "feed_lang cfg"]
      by (cases "feed_lang cfg = ''ru''") simp_all
    have "lacks_link (entries ! k) \<longrightarrow> link (items ! k) = Link (JStr ''#'')"
      using lk lacks_link_hash [OF l(1)] by simp
    with nth_raw [OF k] dt ds show ?thesis by blast
  qed
  have ru: "length (description i) \<le> 300"
    if "feed_lang cfg = ''ru''" and "i \<in> set items" for i
  proof -
    from that(2) obtain k where k: "k < length items" "items ! k = i"
      by (auto simp: in_set_conv_nth)
    from raw_item_description [OF nth_raw [OF k(1)]]
    have "length (description (raws ! k)) \<le> 300"
      by auto
    with nth_item [OF k(1)] that(1) k(2) show ?thesis by simp
  qed
  have all: "\<And>resp' data' entries' k.
            net (proxy_url P cfg) = Some resp' \<Longrightarrow> payload resp' = Some data' \<Longrightarrow>
            get_prop data' ''items'' = Inr (Some (JArr entries')) \<Longrightarrow> entries' = entries"
    using r d its by simp
  show ?thesis
    using one ru each all by blast
qed

lemma fetchFeed_undated_first:
  "fetchFeed example_platform undated_first_net Map.empty radio_prague =
     (Inr [undated_item, dated_item], Map.empty)"
  by (simp add: encoding_defs fetchFeed_def fetchFeed_try_def undated_first_net_def radio_prague_def
      feed_def proxy_url_def example_platform_def ok_def and_then_def falsy_def
      MAX_ITEMS_PER_FEED_def raw_item_def stripHtml_def or_else_def link_or_hash_def
      undated_item_def dated_item_def)

theorem fetchFeed_items_witness:
  "fetchFeed example_platform undated_first_net Map.empty radio_prague =
     (Inr [undated_item, dated_item], Map.empty) \<and>
   length [undated_item, dated_item] \<le> MAX_ITEMS_PER_FEED \<and>
   length (description undated_item) \<le> 300 \<and>
   lacks_link (JObj [(''title'', JStr ''Undated'')]) \<and>
   link undated_item = Link (JStr ''#'')"
  using fetchFeed_items [OF fetchFeed_undated_first]
  by (simp add: fetchFeed_undated_first lacks_link_def undated_item_def)

section \<open>Fetching a section\<close>

lemma by_date_dated:
  assumes "dated P a" and "dated P b"
  shows "by_date P a b = Inr (time_or_epoch P b - time_or_epoch P a)"
  using assms
  by (auto simp: dated_def by_date_def time_or_epoch_def and_then_def
      split: sum.splits option.splits)

lemma insert_by_dated:
  assumes "dated P x" and "\<forall>i \<in> set ys. dated P i" and "sorted_by_date P ys"
  shows "\<exists>r. insert_by (by_date P) x ys = Inr r \<and> mset r = add_mset x (mset ys) \<and>
             sorted_by_date P r"
  using assms
proof (induction ys)
  case Nil
  then show ?case by (simp add: sorted_by_date_def)
next
  case (Cons y ys)
  have c: "by_date P y x = Inr (time_or_epoch P x - time_or_epoch P y)"
    using Cons.prems by (simp add: by_date_dated)
  show ?case
  proof (cases "time_or_epoch P x - time_or_epoch P y \<le> 0")
    case True
    from Cons obtain r where r: "insert_by (by_date P) x ys = Inr r"
      "mset r = add_mset x (mset ys)" "sorted_by_date P r"
      by (auto simp: sorted_by_date_def)
    from r(2) have "set r = insert x (set ys)"
      by (metis set_mset_add_mset_insert set_mset_mset)
    with True c Cons.prems r show ?thesis
      by (auto simp: sorted_by_date_def)
  next
    case False
    with c Cons.prems show ?thesis
      by (force simp: sorted_by_date_def)
  qed
qed

lemma sort_into_dated:
  assumes "\<forall>i \<in> set xs. dated P i" and "\<forall>i \<in> set acc. dated P i"
    and "sorted_by_date P acc"
  shows "\<exists>r. sort_into (by_date P) xs acc = Inr r \<and> mset r = mset xs + mset acc \<and>
             sorted_by_date P r"
  using assms
proof (induction xs arbitrary: acc)
  case Nil
  then show ?case by simp
next
  case (Cons x xs)
  from insert_by_dated [of P x acc] Cons.prems obtain s where
    s: "insert_by (by_date P) x acc = Inr s" "mset s = add_mset x (mset acc)"
       "sorted_by_date P s"
    by auto
  from s(2) have "set s = insert x (set acc)"
    by (metis set_mset_add_mset_insert set_mset_mset)
  with Cons.prems have "\<forall>i \<in> set s. dated P i" by auto
  from Cons.IH [OF _ this s(3)] Cons.prems obtain r where
    "sort_into (by_date P) xs s = Inr r" "mset r = mset xs + mset s" "sorted_by_date P r"
    by auto
  with s show ?case by auto
qed

text \<open>
  Where every merged item has a date that parses, \<open>fetchSection\<close> returns the merged
  items sorted by date, the most recent first.
\<close>

lemma fetchSection_sorted_when_dated:
  assumes "fst (fetch_feeds P net cache feeds) = results"
    and "\<forall>i \<in> set (merge_results results). dated P i"
  shows "\<exists>r. fst (fetchSection_feeds P net cache feeds) = Inr r \<and>
             mset r = mset (merge_results results) \<and> sorted_by_date P r"
proof -
  from sort_into_dated [of "merge_results results" P "[]"] assms(2)
  obtain r where "sort_by (by_date P) (merge_results results) = Inr r"
    "mset r = mset (merge_results results)" "sorted_by_date P r"
    by (auto simp: sort_by_def sorted_by_date_def)
  with assms(1) show ?thesis
    by (auto simp: fetchSection_feeds_def split: prod.splits)
qed

text \<open>
  C1 fails on the code: an item whose date is missing does not sort as the epoch. The
  difference of its date with any other is NaN, which \<open>sort\<close> reads as "equal", so
  the item stays where the merge put it. Here the first feed of \<open>czech\<close> gives an
  item without a date before an item of 2024, every other feed fails, and
  \<open>fetchSection\<close> returns the item without a date first: the list is not sorted by
  date with the missing date as the epoch. The comparator is a consistent ordering of
  these two items (they compare equal both ways), so this is the result of every
  conforming \<open>sort\<close>.
\<close>

theorem fetchSection_undated_item_first:
  "fst (fetchSection example_platform undated_first_net Map.empty ''czech'') =
     Inr [undated_item, dated_item] \<and>
   \<not> sorted_by_date example_platform [undated_item, dated_item] \<and>
   new_Date example_platform (pubDate undated_item) = Inr None \<and>
   new_Date example_platform (pubDate dated_item) = Inr (Some 1704067200000) \<and>
   by_date example_platform undated_item dated_item = Inr 0 \<and>
   by_date example_platform dated_item undated_item = Inr 0"
  by (simp add: encoding_defs fetchSection_def fetchSection_feeds_def FEEDS_def FEEDS_czech_def
      fetchFeed_def fetchFeed_try_def undated_first_net_def radio_prague_def feed_def
      proxy_url_def example_platform_def ok_def and_then_def falsy_def
      MAX_ITEMS_PER_FEED_def raw_item_def stripHtml_def or_else_def link_or_hash_def
      undated_item_def dated_item_def merge_results_def fulfilled_def settled_value_def
      sort_by_def by_date_def new_Date_def example_dates_def RSS_PROXY_def
      sorted_by_date_def time_or_epoch_def)

section \<open>The cache in localStorage\<close>

text \<open>What \<open>getCachedData\<close> returns of a parsed entry, by the conversion of its timestamp.\<close>

lemma getCachedData_parsed:
  assumes "accessible ls" and "entries ls (storage_key section) = Some text"
    and "text \<noteq> []" and "json_parse P text = Some data"
  shows "getCachedData P ls now section =
           (case get_prop data ''timestamp'' of
              Inl e \<Rightarrow> None
            | Inr ts \<Rightarrow>
                (case ToNumber P ts of
                   Inl e \<Rightarrow> None
                 | Inr None \<Rightarrow> Some data
                 | Inr (Some n) \<Rightarrow> if now - n > CACHE_DURATION_MS then None else Some data))"
  using assms
  by (simp add: getCachedData_def getCachedData_try_def getItem_def and_then_def
      split: sum.splits option.splits)


text \<open>
  C9, as the claim states it, fails: a timestamp that is not a number may still convert
  to one. The entry with the timestamp \<open>null\<close> parses, its timestamp converts to 0, and
  \<open>getCachedData\<close> returns \<open>null\<close> for it.
\<close>

theorem null_timestamp_is_stale:
  "json_parse example_platform
     (stringify (JObj [(''timestamp'', JNull), (''items'', JArr [])])) =
     Some (JObj [(''timestamp'', JNull), (''items'', JArr [])]) \<and>
   get_prop (JObj [(''timestamp'', JNull), (''items'', JArr [])]) ''timestamp'' =
     Inr (Some JNull) \<and>
   getCachedData example_platform
     (storage_with (JObj [(''timestamp'', JNull), (''items'', JArr [])]))
     1700000000000 ''czech'' = None"
  by (simp add: getCachedData_def getCachedData_try_def getItem_def storage_with_def
      and_then_def example_platform_def example_values_def quoted_def ToNumber_def
      CACHE_DURATION_MS_def)

text \<open>
  C9, amended: for every stored entry whose JSON parses and whose timestamp is missing or
  converts to NaN (a string that is not a numeric literal, for one), \<open>getCachedData\<close>
  returns the entry at any time, as if it were fresh. A timestamp that is not a number
  but converts to one (\<open>null\<close> to 0, \<open>false\<close> and \<open>true\<close> to 0 and 1, a numeric
  string to its number) is aged as that number.
\<close>

theorem getCachedData_timestamp_conversion:
  assumes "accessible ls" and "entries ls (storage_key section) = Some text"
    and "text \<noteq> []" and "json_parse P text = Some data"
    and "get_prop data ''timestamp'' = Inr ts"
  shows "(ToNumber P ts = Inr None \<longrightarrow> getCachedData P ls now section = Some data) \<and>
         (\<forall>n. ToNumber P ts = Inr (Some n) \<longrightarrow>
              getCachedData P ls now section =
                (if now - n > CACHE_DURATION_MS then None else Some data)) \<and>
         (ts = None \<longrightarrow> ToNumber P ts = Inr None) \<and>
         (\<forall>s. ts = Some (JStr s) \<longrightarrow> ToNumber P ts = Inr (string_to_number P s)) \<and>
         (ts = Some JNull \<longrightarrow> ToNumber P ts = Inr (Some 0)) \<and>
         (\<forall>b. ts = Some (JBool b) \<longrightarrow> ToNumber P ts = Inr (Some (if b then 1 else 0))) \<and>
         (\<forall>n. ts = Some (JNum n) \<longrightarrow> ToNumber P ts = Inr (Some n))"
proof -
  have "getCachedData P ls now section =
          (case ToNumber P ts of
             Inl e \<Rightarrow> None
           | Inr None \<Rightarrow> Some data
           | Inr (Some n) \<Rightarrow> if now - n > CACHE_DURATION_MS then None else Some data)"
    using getCachedData_parsed [OF assms(1-4), of now] assms(5) by simp
  then show ?thesis by (simp add: ToNumber_def)
qed

theorem getCachedData_timestamp_conversion_witness:
  "getCachedData example_platform
     (storage_with (JObj [(''timestamp'', JStr ''soon''), (''items'', JArr [])]))
     1700000000000 ''czech'' =
     Some (JObj [(''timestamp'', JStr ''soon''), (''items'', JArr [])]) \<and>
   getCachedData example_platform (storage_with (JObj [(''items'', JArr [])]))
     1700000000000 ''czech'' = Some (JObj [(''items'', JArr [])])"
  using getCachedData_timestamp_conversion
      [of "storage_with (JObj [(''timestamp'', JStr ''soon''), (''items'', JArr [])])"
          "''czech''"
          "stringify (JObj [(''timestamp'', JStr ''soon''), (''items'', JArr [])])"
          example_platform "JObj [(''timestamp'', JStr ''soon''), (''items'', JArr [])]"
          "Some (JStr ''soon'')" 1700000000000]
    getCachedData_timestamp_conversion
      [of "storage_with (JObj [(''items'', JArr [])])" "''czech''"
          "stringify (JObj [(''items'', JArr [])])"
          example_platform "JObj [(''items'', JArr [])]" None 1700000000000]
  by (simp add: storage_with_def example_platform_def example_values_def quoted_def
      ToNumber_def read_int_def)




section \<open>Refreshing\<close>

lemma step_invariant:
  assumes "in_flight L \<le> 1" and "isRefreshing (app L) \<longleftrightarrow> in_flight L = 1"
  shows "in_flight (step P pg ls L e) \<le> 1 \<and>
         (isRefreshing (app (step P pg ls L e)) \<longleftrightarrow> in_flight (step P pg ls L e) = 1)"
  using assms
  by (cases e) (auto simp: refreshAll_call_def refreshAll_resume_def Let_def)

lemma run_invariant:
  assumes "in_flight L \<le> 1" and "isRefreshing (app L) \<longleftrightarrow> in_flight L = 1"
  shows "in_flight (run P pg ls L events) \<le> 1 \<and>
         (isRefreshing (app (run P pg ls L events)) \<longleftrightarrow>
            in_flight (run P pg ls L events) = 1)"
  using assms
proof (induction events arbitrary: L)
  case Nil
  then show ?case by (simp add: run_def)
next
  case (Cons e events)
  from step_invariant [OF Cons.prems, of P pg ls e]
  have "in_flight (step P pg ls L e) \<le> 1"
    "isRefreshing (app (step P pg ls L e)) \<longleftrightarrow> in_flight (step P pg ls L e) = 1"
    by simp_all
  from Cons.IH [OF this] show ?case by (simp add: run_def)
qed

text \<open>
  C7: while one \<open>refreshAll\<close> is in flight (the flag is set), a further call is a
  no-op: it changes no state, starts no load and sends no request. A call when none is in
  flight sets the flag and starts the loads of the three sections, forced. When the loads
  have settled, the invocation clears the flag, so that a later call runs again. Over
  every sequence of calls and settlings from the start, at most one invocation is in
  flight, and the flag is set exactly while one is.
\<close>

theorem refreshAll_single_flight:
  "(isRefreshing s \<longrightarrow>
      refreshAll_call P pg ls now s = \<lparr>state_after = s, loads = [], sent = []\<rparr>) \<and>
   (\<not> isRefreshing s \<longrightarrow>
      isRefreshing (state_after (refreshAll_call P pg ls now s)) \<and>
      loads (refreshAll_call P pg ls now s) =
        [(''czech'', True), (''estonia'', True), (''vaping'', True)] \<and>
      refreshAll_call P pg ls' now' (state_after (refreshAll_call P pg ls now s)) =
        \<lparr>state_after = state_after (refreshAll_call P pg ls now s), loads = [], sent = []\<rparr>) \<and>
   \<not> isRefreshing (refreshAll_resume pg now' s) \<and>
   loads (refreshAll_call P pg ls now (refreshAll_resume pg now' s)) =
     [(''czech'', True), (''estonia'', True), (''vaping'', True)] \<and>
   in_flight (run P pg ls start events) \<le> 1 \<and>
   (isRefreshing (app (run P pg ls start events)) \<longleftrightarrow>
      in_flight (run P pg ls start events) = 1)"
proof -
  have "in_flight start \<le> 1" "isRefreshing (app start) \<longleftrightarrow> in_flight start = 1"
    by (simp_all add: start_def)
  from run_invariant [OF this, of P pg ls events] show ?thesis
    by (simp add: refreshAll_call_def refreshAll_resume_def Let_def)
qed

theorem refreshAll_single_flight_witness:
  "\<not> isRefreshing idle \<and>
   isRefreshing (state_after
     (refreshAll_call example_platform example_page empty_storage 1700000000000 idle)) \<and>
   length (sent
     (refreshAll_call example_platform example_page empty_storage 1700000000000 idle)) = 15 \<and>
   sent (refreshAll_call example_platform example_page empty_storage 1700000000001
           (state_after
              (refreshAll_call example_platform example_page empty_storage 1700000000000 idle)))
     = [] \<and>
   refreshAll_resume example_page 1700000005000
     (state_after
        (refreshAll_call example_platform example_page empty_storage 1700000000000 idle))
     = \<lparr>isRefreshing = False, spinning = False, last_updated = Some 1700000005000\<rparr> \<and>
   length (fetches (run example_platform example_page empty_storage start
     [Called 1700000000000, Called 1700000000001])) = 15 \<and>
   length (fetches (run example_platform example_page empty_storage start
     [Called 1700000000000, Called 1700000000001, Settled 1700000005000,
      Called 1700000006000])) = 30"
  using refreshAll_single_flight
      [of idle example_platform example_page empty_storage 1700000000000 empty_storage
          1700000000001 "[Called 1700000000000, Called 1700000000001]"]
    refreshAll_single_flight
      [of "state_after
             (refreshAll_call example_platform example_page empty_storage 1700000000000 idle)"
          example_platform example_page empty_storage 1700000000001 empty_storage
          1700000000002 "[]"]
  by (simp add: idle_def refreshAll_call_def refreshAll_resume_def example_page_def
      loadSection_requests_def FEEDS_def FEEDS_czech_def FEEDS_estonia_def FEEDS_vaping_def
      run_def start_def)

end
